theory Spec2Isabelle
  imports Complex_Main
begin

section \<open>JavaScript numbers\<close>

text \<open>
  The gateway is TypeScript: every \<^verbatim>\<open>number\<close> is an IEEE 754 binary64 value.
  A number is modelled as NaN, an infinity, negative zero, or a finite rational
  (\<open>Fin 0\<close> is positive zero). The arithmetic operations compute the exact rational
  result and round it with \<open>fl\<close> to the nearest binary64 value, ties to even: a result
  too large becomes an infinity, and one too small a zero with the sign of the exact
  result.
\<close>

datatype jsnum = NaN | NInf | NegZero | Fin rat | PInf

definition pow2 :: "int \<Rightarrow> rat" where
  "pow2 e = (if 0 \<le> e then 2 ^ nat e else 1 / 2 ^ nat (- e))"

function bitlen :: "int \<Rightarrow> int" where
  \<comment> \<open>the number of binary digits of a positive integer\<close>
  "bitlen n = (if n \<le> 0 then 0 else bitlen (n div 2) + 1)"
  by pat_completeness auto
termination
  by (relation "measure nat") auto

declare bitlen.simps [simp del]

definition floor_log2 :: "rat \<Rightarrow> int" where
  \<comment> \<open>for \<open>0 < a\<close>: the \<open>E\<close> with \<open>2 ^ E \<le> a < 2 ^ (E + 1)\<close>\<close>
  "floor_log2 a =
     (let (p, q) = quotient_of a;
          d = bitlen p - bitlen q
      in if pow2 d \<le> a then d else d - 1)"

definition round_half_even :: "rat \<Rightarrow> int" where
  "round_half_even q =
     (let f = \<lfloor>q\<rfloor>; d = q - of_int f
      in if d < 1 / 2 then f
         else if 1 / 2 < d then f + 1
         else if even f then f else f + 1)"

definition round_mag :: "rat \<Rightarrow> rat" where
  \<comment> \<open>nearest binary64 magnitude of \<open>0 < a\<close>: 53 significant bits, subnormals below \<open>2 ^ -1022\<close>\<close>
  "round_mag a =
     (let e = max (floor_log2 a) (- 1022) - 52
      in of_int (round_half_even (a / pow2 e)) * pow2 e)"

definition overflows :: "rat \<Rightarrow> bool" where
  \<comment> \<open>the magnitude \<open>0 < a\<close> rounds to \<open>2 ^ 1024\<close>; one below \<open>2 ^ 1023\<close> rounds to at most \<open>2 ^ 1023\<close>\<close>
  "overflows a = (if floor_log2 a < 1023 then False else pow2 1024 \<le> round_mag a)"

definition fl :: "rat \<Rightarrow> jsnum" where
  "fl q =
     (if q = 0 then Fin 0
      else let r = round_mag \<bar>q\<bar>
           in if overflows \<bar>q\<bar> then (if q < 0 then NInf else PInf)
              else if r = 0 then (if q < 0 then NegZero else Fin 0)
              else Fin (if q < 0 then - r else r))"

fun is_nan :: "jsnum \<Rightarrow> bool" where
  "is_nan NaN = True"
| "is_nan _ = False"

fun is_inf :: "jsnum \<Rightarrow> bool" where
  "is_inf NInf = True"
| "is_inf PInf = True"
| "is_inf _ = False"

fun numval :: "jsnum \<Rightarrow> rat" where
  "numval (Fin q) = q"
| "numval _ = 0"

fun is_zero :: "jsnum \<Rightarrow> bool" where
  "is_zero NegZero = True"
| "is_zero (Fin q) = (q = 0)"
| "is_zero _ = False"

fun sign_bit :: "jsnum \<Rightarrow> bool" where
  "sign_bit NInf = True"
| "sign_bit NegZero = True"
| "sign_bit (Fin q) = (q < 0)"
| "sign_bit _ = False"

definition signed_inf :: "bool \<Rightarrow> jsnum" where
  "signed_inf neg = (if neg then NInf else PInf)"

definition signed_zero :: "bool \<Rightarrow> jsnum" where
  "signed_zero neg = (if neg then NegZero else Fin 0)"

text \<open>The relational operators \<^verbatim>\<open><\<close> and \<^verbatim>\<open><=\<close> on numbers: false on NaN, the two zeros equal.\<close>

definition js_lt :: "jsnum \<Rightarrow> jsnum \<Rightarrow> bool" where
  "js_lt a b =
     (if is_nan a \<or> is_nan b then False
      else if a = PInf \<or> b = NInf then False
      else if a = NInf \<or> b = PInf then True
      else numval a < numval b)"

definition js_le :: "jsnum \<Rightarrow> jsnum \<Rightarrow> bool" where
  "js_le a b =
     (if is_nan a \<or> is_nan b then False
      else if a = NInf \<or> b = PInf then True
      else if a = PInf \<or> b = NInf then False
      else numval a \<le> numval b)"

text \<open>\<^verbatim>\<open>a - b\<close>, \<^verbatim>\<open>a / b\<close> and \<^verbatim>\<open>a * b\<close> on numbers.\<close>

definition js_sub :: "jsnum \<Rightarrow> jsnum \<Rightarrow> jsnum" where
  "js_sub a b =
     (if is_nan a \<or> is_nan b then NaN
      else if is_inf a then (if a = b then NaN else a)
      else if is_inf b then signed_inf (\<not> sign_bit b)
      else if numval a - numval b = 0
        then (if sign_bit a \<and> \<not> sign_bit b then NegZero else Fin 0)
      else fl (numval a - numval b))"

definition js_div :: "jsnum \<Rightarrow> jsnum \<Rightarrow> jsnum" where
  "js_div a b =
     (let neg = (sign_bit a \<noteq> sign_bit b)
      in if is_nan a \<or> is_nan b then NaN
         else if is_inf a then (if is_inf b then NaN else signed_inf neg)
         else if is_inf b then signed_zero neg
         else if is_zero b then (if is_zero a then NaN else signed_inf neg)
         else if is_zero a then signed_zero neg
         else fl (numval a / numval b))"

definition js_mul :: "jsnum \<Rightarrow> jsnum \<Rightarrow> jsnum" where
  "js_mul a b =
     (let neg = (sign_bit a \<noteq> sign_bit b)
      in if is_nan a \<or> is_nan b then NaN
         else if is_inf a \<or> is_inf b
           then (if is_zero a \<or> is_zero b then NaN else signed_inf neg)
         else if is_zero a \<or> is_zero b then signed_zero neg
         else fl (numval a * numval b))"


text \<open>
  \<^verbatim>\<open>Math.max(...xs)\<close> and \<^verbatim>\<open>Math.min(...xs)\<close>: the running value starts at the
  infinity of the other side, a NaN argument makes the result NaN, and positive
  zero counts as larger than negative zero.
\<close>

fun math_max_from :: "jsnum \<Rightarrow> jsnum list \<Rightarrow> jsnum" where
  "math_max_from highest [] = highest"
| "math_max_from highest (x # xs) =
     (if is_nan x then NaN
      else math_max_from
             (if (x = Fin 0 \<and> highest = NegZero) \<or> js_lt highest x then x else highest) xs)"

definition math_max :: "jsnum list \<Rightarrow> jsnum" where
  "math_max xs = math_max_from NInf xs"

fun math_min_from :: "jsnum \<Rightarrow> jsnum list \<Rightarrow> jsnum" where
  "math_min_from lowest [] = lowest"
| "math_min_from lowest (x # xs) =
     (if is_nan x then NaN
      else math_min_from
             (if (x = NegZero \<and> lowest = Fin 0) \<or> js_lt x lowest then x else lowest) xs)"

definition math_min :: "jsnum list \<Rightarrow> jsnum" where
  "math_min xs = math_min_from PInf xs"

section \<open>JavaScript values and the built-ins the gateway calls\<close>

text \<open>
  Request bodies, query strings and remote responses are untyped (\<^verbatim>\<open>any\<close>).
  \<open>JObj s\<close> is an object or array whose conversion to a string is \<open>s\<close>.
\<close>

datatype jsval = JUndefined | JNull | JBool bool | JNum jsnum | JStr string | JObj string

text \<open>
  The built-ins that read or print the digits of a number are parameters of the model:
  \<^verbatim>\<open>parseFloat\<close>, \<^verbatim>\<open>parseInt\<close> and the numeric conversion on a string, and
  \<^verbatim>\<open>Number.prototype.toString\<close> on a finite number. So is the wording of the
  \<^verbatim>\<open>TypeError\<close> that reading a property of \<^verbatim>\<open>null\<close> or \<^verbatim>\<open>undefined\<close> throws, given
  the property's name.
\<close>

record js_env =
  str_parseFloat :: "string \<Rightarrow> jsnum"
  str_parseInt :: "string \<Rightarrow> jsnum"
  str_toNumber :: "string \<Rightarrow> jsnum"
  num_toString :: "jsnum \<Rightarrow> string"
  null_read_message :: "string \<Rightarrow> string"

fun truthy :: "jsval \<Rightarrow> bool" where
  "truthy JUndefined = False"
| "truthy JNull = False"
| "truthy (JBool b) = b"
| "truthy (JNum n) = (\<not> is_nan n \<and> \<not> is_zero n)"
| "truthy (JStr s) = (s \<noteq> [])"
| "truthy (JObj s) = True"

fun toNumber :: "js_env \<Rightarrow> jsval \<Rightarrow> jsnum" where
  "toNumber env JUndefined = NaN"
| "toNumber env JNull = Fin 0"
| "toNumber env (JBool b) = (if b then Fin 1 else Fin 0)"
| "toNumber env (JNum n) = n"
| "toNumber env (JStr s) = str_toNumber env s"
| "toNumber env (JObj s) = str_toNumber env s"

text \<open>
  \<^verbatim>\<open>parseFloat(v)\<close> converts \<open>v\<close> to a string and parses its longest numeric prefix.
  A number comes back as itself (its printed form reads back as the same number),
  except that negative zero prints as \<^verbatim>\<open>0\<close>; \<^verbatim>\<open>undefined\<close>, \<^verbatim>\<open>null\<close>,
  \<^verbatim>\<open>true\<close> and \<^verbatim>\<open>false\<close> print as words that are not numbers.
\<close>

fun parseFloat :: "js_env \<Rightarrow> jsval \<Rightarrow> jsnum" where
  "parseFloat env (JNum n) = (if n = NegZero then Fin 0 else n)"
| "parseFloat env (JStr s) = str_parseFloat env s"
| "parseFloat env (JObj s) = str_parseFloat env s"
| "parseFloat env _ = NaN"

text \<open>\<^verbatim>\<open>x.toString()\<close> on a number: both zeros print as \<^verbatim>\<open>0\<close>.\<close>

fun number_toString :: "js_env \<Rightarrow> jsnum \<Rightarrow> string" where
  "number_toString env NaN = ''NaN''"
| "number_toString env PInf = ''Infinity''"
| "number_toString env NInf = ''-Infinity''"
| "number_toString env NegZero = ''0''"
| "number_toString env (Fin q) = (if q = 0 then ''0'' else num_toString env (Fin q))"

fun digit_char :: "nat \<Rightarrow> char" where
  "digit_char n = char_of (48 + n mod 10)"

fun digits10 :: "nat \<Rightarrow> string" where
  "digits10 n = (if n < 10 then [digit_char n] else digits10 (n div 10) @ [digit_char n])"

declare digits10.simps [simp del]

text \<open>
  \<^verbatim>\<open>x.toFixed(f)\<close>: a number that is not finite prints as \<^verbatim>\<open>toString\<close> prints it;
  a magnitude of at least \<open>10 ^ 21\<close> too; otherwise the integer \<open>n\<close> nearest to
  \<open>x * 10 ^ f\<close> (the larger one on a tie) is printed with \<open>f\<close> digits after the point.
\<close>

definition toFixed_digits :: "nat \<Rightarrow> rat \<Rightarrow> string" where
  "toFixed_digits f x =
     (let n = nat \<lfloor>x * 10 ^ f + 1 / 2\<rfloor>;
          m = digits10 n;
          m' = (if f = 0 then m
                else let z = (if length m \<le> f then replicate (f + 1 - length m) (CHR ''0'') @ m else m)
                     in take (length z - f) z @ ''.'' @ drop (length z - f) z)
      in m')"

definition toFixed :: "js_env \<Rightarrow> nat \<Rightarrow> jsnum \<Rightarrow> string" where
  "toFixed env f x =
     (if is_nan x \<or> is_inf x then number_toString env x
      else let neg = (numval x < 0); a = \<bar>numval x\<bar>
           in (if neg then ''-'' else [])
              @ (if 10 ^ 21 \<le> a then num_toString env (Fin a) else toFixed_digits f a))"


section \<open>The remote trading service\<close>

text \<open>
  The client library (\<^verbatim>\<open>ClobClient\<close>) and the remote service behind it are not part of
  the repository: each remote method is a parameter, a function of the remote state \<open>'r\<close>
  that either throws (\<open>Inl\<close>) or returns. \<open>'o\<close> is the signed order.

  What a remote method throws is untyped: \<^verbatim>\<open>null\<close> or \<^verbatim>\<open>undefined\<close>, or a value
  whose \<^verbatim>\<open>message\<close> property can be read (\<^verbatim>\<open>undefined\<close> when it has none). What the
  facade and the runtime throw is an \<^verbatim>\<open>Error\<close> object with its message.

  What \<^verbatim>\<open>postOrder\<close> resolves to is untyped too: \<open>None\<close> is \<^verbatim>\<open>null\<close> or
  \<^verbatim>\<open>undefined\<close>; otherwise the value with its \<^verbatim>\<open>orderID\<close>, \<^verbatim>\<open>error\<close> and
  \<^verbatim>\<open>status\<close> properties, each \<^verbatim>\<open>undefined\<close> when absent. The facade reads only
  \<^verbatim>\<open>orderID\<close>.
\<close>

datatype thrown = ThrownNullish | Thrown jsval

datatype js_error = Error (message: string)

record raw_level =
  raw_price :: jsval
  raw_size :: jsval

record order_book_summary =
  raw_bids :: "raw_level list"
  raw_asks :: "raw_level list"

record order_args =
  arg_tokenID :: jsval
  arg_price :: string
  arg_size :: string
  arg_side :: string
  arg_feeRateBps :: string

record post_response =
  orderID :: jsval
  response_error :: jsval
  response_status :: jsval

record open_order =
  order_id :: string
  asset_id :: string

record ('r, 'o) clob =
  deriveApiKey :: "'r \<Rightarrow> (thrown + unit) \<times> 'r"
  clob_getOrderBook :: "string \<Rightarrow> 'r \<Rightarrow> (thrown + order_book_summary) \<times> 'r"
  clob_createOrder :: "order_args \<Rightarrow> 'r \<Rightarrow> (thrown + 'o) \<times> 'r"
  clob_postOrder :: "'o \<Rightarrow> string \<Rightarrow> 'r \<Rightarrow> (thrown + post_response option) \<times> 'r"
  clob_cancelOrder :: "string \<Rightarrow> 'r \<Rightarrow> (thrown + unit) \<times> 'r"
  clob_getOrders :: "'r \<Rightarrow> (thrown + open_order list) \<times> 'r"

text \<open>
  Every call that reaches the remote service is recorded, with whether it returned
  (\<open>True\<close>) or threw (\<open>False\<close>). The record is not in the source: it is what the
  claims about calls made and calls not made are stated on.
\<close>

datatype call =
    DeriveApiKey
  | GetOrderBook string
  | CreateOrder order_args
  | PostOrder string
  | CancelOrder string
  | GetOrders

type_synonym event = "call \<times> bool"

section \<open>The trading client facade (\<^verbatim>\<open>PolymarketClient\<close>)\<close>

record 'r facade =
  initialized :: bool
  remote :: 'r
  trace :: "event list"

definition returned :: "(thrown + 'a) \<Rightarrow> bool" where
  "returned res = (case res of Inl e \<Rightarrow> False | Inr v \<Rightarrow> True)"

definition remote_call ::
  "call \<Rightarrow> ('r \<Rightarrow> (thrown + 'a) \<times> 'r) \<Rightarrow> 'r facade \<Rightarrow> (thrown + 'a) \<times> 'r facade" where
  "remote_call c f s =
     (let (res, r') = f (remote s)
      in (res, s\<lparr>remote := r', trace := trace s @ [(c, returned res)]\<rparr>))"

definition initialize :: "('r, 'o) clob \<Rightarrow> 'r facade \<Rightarrow> (js_error + unit) \<times> 'r facade" where
  "initialize cl s =
     (if initialized s then (Inr (), s)
      else case remote_call DeriveApiKey (deriveApiKey cl) s of
             (Inr u, s') \<Rightarrow> (Inr (), s'\<lparr>initialized := True\<rparr>)
           | (Inl e, s') \<Rightarrow> (Inl (Error ''Failed to initialize Polymarket client''), s'))"

definition ensureInitialized :: "('r, 'o) clob \<Rightarrow> 'r facade \<Rightarrow> (js_error + unit) \<times> 'r facade" where
  "ensureInitialized cl s = (if \<not> initialized s then initialize cl s else (Inr (), s))"

subsection \<open>\<^verbatim>\<open>getOrderBook\<close>\<close>

record level =
  price :: jsnum
  level_size :: jsnum

record MarketData =
  tokenId :: string
  bestBid :: jsnum
  bestAsk :: jsnum
  spread :: jsnum
  bids :: "level list"
  asks :: "level list"

definition parse_level :: "js_env \<Rightarrow> raw_level \<Rightarrow> level" where
  "parse_level env l =
     \<lparr>price = parseFloat env (raw_price l), level_size = parseFloat env (raw_size l)\<rparr>"

definition market_data :: "js_env \<Rightarrow> string \<Rightarrow> order_book_summary \<Rightarrow> MarketData" where
  \<comment> \<open>the body of the \<^verbatim>\<open>try\<close> block, after the remote call has returned\<close>
  "market_data env tid orderBookSummary =
     (let bs = map (parse_level env) (raw_bids orderBookSummary);
          as = map (parse_level env) (raw_asks orderBookSummary);
          bidPrices = map price bs;
          askPrices = map price as;
          bb = (if length bidPrices > 0 then math_max bidPrices else Fin 0);
          ba = (if length askPrices > 0 then math_min askPrices else Fin 0)
      in \<lparr>tokenId = tid, bestBid = bb, bestAsk = ba, spread = js_sub ba bb,
          bids = bs, asks = as\<rparr>)"

definition getOrderBook ::
  "js_env \<Rightarrow> ('r, 'o) clob \<Rightarrow> string \<Rightarrow> 'r facade \<Rightarrow> (js_error + MarketData) \<times> 'r facade" where
  "getOrderBook env cl tid s =
     (case ensureInitialized cl s of
        (Inl e, s1) \<Rightarrow> (Inl e, s1)
      | (Inr u, s1) \<Rightarrow>
          (case remote_call (GetOrderBook tid) (clob_getOrderBook cl tid) s1 of
             (Inl e, s2) \<Rightarrow> (Inl (Error ''Failed to fetch order book''), s2)
           | (Inr orderBookSummary, s2) \<Rightarrow> (Inr (market_data env tid orderBookSummary), s2)))"

subsection \<open>\<^verbatim>\<open>createOrder\<close>\<close>

record OrderParams =
  op_tokenId :: jsval
  op_price :: jsnum
  op_size :: jsnum
  op_side :: jsval

record OrderResponse =
  orderId :: jsval
  success :: bool
  or_message :: jsval

text \<open>
  The \<^verbatim>\<open>catch\<close> block of \<^verbatim>\<open>createOrder\<close> reads \<^verbatim>\<open>error.message\<close>. On a caught
  \<^verbatim>\<open>null\<close> or \<^verbatim>\<open>undefined\<close> that read throws, and \<^verbatim>\<open>createOrder\<close> throws with it;
  on any other value the block returns the failure result, with the value's message
  when it is truthy.
\<close>

definition order_failed :: "js_env \<Rightarrow> thrown \<Rightarrow> js_error + OrderResponse" where
  "order_failed env e =
     (case e of
        ThrownNullish \<Rightarrow> Inl (Error (null_read_message env ''message''))
      | Thrown m \<Rightarrow>
          Inr \<lparr>orderId = JStr [], success = False,
               or_message = (if truthy m then m else JStr ''Failed to create order'')\<rparr>)"

definition order_args_of :: "js_env \<Rightarrow> OrderParams \<Rightarrow> order_args" where
  "order_args_of env params =
     \<lparr>arg_tokenID = op_tokenId params,
      arg_price = number_toString env (op_price params),
      arg_size = number_toString env (op_size params),
      arg_side = (if op_side params = JStr ''BUY'' then ''BUY'' else ''SELL''),
      arg_feeRateBps = ''0''\<rparr>"

text \<open>
  \<^verbatim>\<open>response.orderID\<close> is read inside the \<^verbatim>\<open>try\<close> block: when \<^verbatim>\<open>postOrder\<close> resolved
  to \<^verbatim>\<open>null\<close> or \<^verbatim>\<open>undefined\<close> the read throws a \<^verbatim>\<open>TypeError\<close>, which the \<^verbatim>\<open>catch\<close>
  block handles like a value thrown by the remote service.
\<close>

definition createOrder ::
  "js_env \<Rightarrow> ('r, 'o) clob \<Rightarrow> OrderParams \<Rightarrow> 'r facade \<Rightarrow> (js_error + OrderResponse) \<times> 'r facade" where
  "createOrder env cl params s =
     (case ensureInitialized cl s of
        (Inl e, s1) \<Rightarrow> (Inl e, s1)
      | (Inr u, s1) \<Rightarrow>
          (let orderArgs = order_args_of env params
           in case remote_call (CreateOrder orderArgs) (clob_createOrder cl orderArgs) s1 of
                (Inl e, s2) \<Rightarrow> (order_failed env e, s2)
              | (Inr signedOrder, s2) \<Rightarrow>
                  (case remote_call (PostOrder ''GTC'') (clob_postOrder cl signedOrder ''GTC'') s2 of
                     (Inl e, s3) \<Rightarrow> (order_failed env e, s3)
                   | (Inr None, s3) \<Rightarrow>
                       (order_failed env (Thrown (JStr (null_read_message env ''orderID''))), s3)
                   | (Inr (Some response), s3) \<Rightarrow>
                       (Inr \<lparr>orderId = (if truthy (orderID response) then orderID response
                                         else JStr ''unknown''),
                             success = True,
                             or_message = JStr ''Order placed successfully''\<rparr>, s3))))"

subsection \<open>\<^verbatim>\<open>cancelAllOrders\<close>\<close>

record CancelAllResult =
  ca_success :: bool
  cancelledCount :: nat

fun cancel_each ::
  "('r, 'o) clob \<Rightarrow> open_order list \<Rightarrow> nat \<Rightarrow> 'r facade \<Rightarrow> nat \<times> 'r facade" where
  "cancel_each cl [] count s = (count, s)"
| "cancel_each cl (order # rest) count s =
     (case remote_call (CancelOrder (order_id order)) (clob_cancelOrder cl (order_id order)) s of
        (Inr u, s') \<Rightarrow> cancel_each cl rest (count + 1) s'
      | (Inl e, s') \<Rightarrow> cancel_each cl rest count s')"

definition orders_to_cancel :: "jsval \<Rightarrow> open_order list \<Rightarrow> open_order list" where
  "orders_to_cancel tid orders =
     (if truthy tid then filter (\<lambda>order. JStr (asset_id order) = tid) orders else orders)"

definition cancelAllOrders ::
  "('r, 'o) clob \<Rightarrow> jsval \<Rightarrow> 'r facade \<Rightarrow> (js_error + CancelAllResult) \<times> 'r facade" where
  "cancelAllOrders cl tid s =
     (case ensureInitialized cl s of
        (Inl e, s1) \<Rightarrow> (Inl e, s1)
      | (Inr u, s1) \<Rightarrow>
          (case remote_call GetOrders (clob_getOrders cl) s1 of
             (Inl e, s2) \<Rightarrow> (Inr \<lparr>ca_success = False, cancelledCount = 0\<rparr>, s2)
           | (Inr orders, s2) \<Rightarrow>
               (let (count, s3) = cancel_each cl (orders_to_cancel tid orders) 0 s2
                in (Inr \<lparr>ca_success = True, cancelledCount = count\<rparr>, s3))))"


subsection \<open>\<^verbatim>\<open>getMarkets\<close>\<close>

text \<open>
  The market listing comes from a public HTTP service through the global \<^verbatim>\<open>fetch\<close>,
  a parameter here: given the query parameters it throws, or returns a response with
  its \<^verbatim>\<open>ok\<close> flag and the value \<^verbatim>\<open>response.json()\<close> gives (or throws).
\<close>

record markets_filter =
  active :: "bool option"
  closed :: "bool option"
  archived :: "bool option"
  limit :: "jsnum option"

type_synonym fetch = "(string \<times> string) list \<Rightarrow> thrown + bool \<times> (thrown + jsval list)"

definition bool_toString :: "bool \<Rightarrow> string" where
  "bool_toString b = (if b then ''true'' else ''false'')"

definition query_params :: "js_env \<Rightarrow> markets_filter \<Rightarrow> (string \<times> string) list" where
  "query_params env params =
     (case active params of None \<Rightarrow> [] | Some b \<Rightarrow> [(''active'', bool_toString b)])
     @ (case closed params of None \<Rightarrow> [] | Some b \<Rightarrow> [(''closed'', bool_toString b)])
     @ (case archived params of None \<Rightarrow> [] | Some b \<Rightarrow> [(''archived'', bool_toString b)])
     @ (case limit params of
          None \<Rightarrow> []
        | Some n \<Rightarrow> (if truthy (JNum n) then [(''limit'', number_toString env n)] else []))"

definition getMarkets :: "js_env \<Rightarrow> fetch \<Rightarrow> markets_filter \<Rightarrow> js_error + jsval list" where
  "getMarkets env fetch_fn params =
     (case fetch_fn (query_params env params) of
        Inl e \<Rightarrow> Inl (Error ''Failed to fetch markets'')
      | Inr (ok, json) \<Rightarrow>
          (if \<not> ok then Inl (Error ''Failed to fetch markets'')
           else case json of
                  Inl e \<Rightarrow> Inl (Error ''Failed to fetch markets'')
                | Inr markets \<Rightarrow> Inr markets))"

section \<open>The gateway router\<close>

record Quote =
  q_tokenId :: string
  q_bestBid :: jsnum
  q_bestAsk :: jsnum
  q_spread :: jsnum
  spreadPercentage :: string

datatype json_body =
    ErrorBody string
  | MarketsBody nat "jsval list"
  | QuoteBody Quote
  | OrderBody bool OrderResponse
  | CancelAllBody CancelAllResult

record http_response =
  status :: nat
  body :: json_body

definition error_response :: "nat \<Rightarrow> string \<Rightarrow> http_response" where
  \<comment> \<open>\<^verbatim>\<open>res.status(code).json({ success: false, error: msg })\<close>\<close>
  "error_response code msg = \<lparr>status = code, body = ErrorBody msg\<rparr>"

definition message_or :: "js_error \<Rightarrow> string \<Rightarrow> string" where
  \<comment> \<open>\<^verbatim>\<open>error.message || fallback\<close>\<close>
  "message_or e fallback = (if message e \<noteq> [] then message e else fallback)"

subsection \<open>\<^verbatim>\<open>GET /markets\<close>\<close>

record markets_query =
  query_active :: jsval
  query_closed :: jsval
  query_archived :: jsval
  query_limit :: jsval

fun parseInt :: "js_env \<Rightarrow> jsval \<Rightarrow> jsnum" where
  "parseInt env (JStr s) = str_parseInt env s"
| "parseInt env (JObj s) = str_parseInt env s"
| "parseInt env (JNum n) = str_parseInt env (number_toString env n)"
| "parseInt env _ = NaN"

definition markets_params :: "js_env \<Rightarrow> markets_query \<Rightarrow> markets_filter" where
  "markets_params env q =
     \<lparr>active = Some (query_active q = JStr ''true''),
      closed = Some (query_closed q = JStr ''true''),
      archived = Some (query_archived q = JStr ''false''),
      limit = Some (if truthy (query_limit q) then parseInt env (query_limit q) else Fin 50)\<rparr>"

definition get_markets :: "js_env \<Rightarrow> fetch \<Rightarrow> markets_query \<Rightarrow> http_response" where
  "get_markets env fetch_fn q =
     (case getMarkets env fetch_fn (markets_params env q) of
        Inl e \<Rightarrow> error_response 500 (message_or e ''Failed to fetch markets'')
      | Inr markets \<Rightarrow> \<lparr>status = 200, body = MarketsBody (length markets) markets\<rparr>)"

subsection \<open>\<^verbatim>\<open>GET /markets/:tokenId/quote\<close>\<close>

definition quote_of :: "js_env \<Rightarrow> string \<Rightarrow> MarketData \<Rightarrow> Quote" where
  "quote_of env tid marketData =
     \<lparr>q_tokenId = tid,
      q_bestBid = bestBid marketData,
      q_bestAsk = bestAsk marketData,
      q_spread = spread marketData,
      spreadPercentage =
        toFixed env 3 (js_mul (js_div (spread marketData) (bestBid marketData)) (Fin 100))\<rparr>"

definition get_quote ::
  "js_env \<Rightarrow> ('r, 'o) clob \<Rightarrow> string \<Rightarrow> 'r facade \<Rightarrow> http_response \<times> 'r facade" where
  "get_quote env cl tid s =
     (if tid = [] then (error_response 400 ''Token ID is required'', s)
      else case getOrderBook env cl tid s of
             (Inl e, s') \<Rightarrow> (error_response 500 (message_or e ''Failed to fetch quote''), s')
           | (Inr marketData, s') \<Rightarrow>
               (\<lparr>status = 200, body = QuoteBody (quote_of env tid marketData)\<rparr>, s'))"

subsection \<open>\<^verbatim>\<open>POST /orders\<close>\<close>

text \<open>
  The parsed JSON body, an object; a field that is absent is \<^verbatim>\<open>undefined\<close>. The
  comparisons \<^verbatim>\<open>price <= 0\<close>, \<^verbatim>\<open>price >= 1\<close> and \<^verbatim>\<open>size <= 0\<close> convert their left
  operand to a number.
\<close>

record order_body =
  body_tokenId :: jsval
  body_price :: jsval
  body_size :: jsval
  body_side :: jsval

definition order_params :: "js_env \<Rightarrow> order_body \<Rightarrow> OrderParams" where
  \<comment> \<open>the argument the handler builds for \<^verbatim>\<open>client.createOrder\<close>\<close>
  "order_params env b =
     \<lparr>op_tokenId = body_tokenId b,
      op_price = parseFloat env (body_price b),
      op_size = parseFloat env (body_size b),
      op_side = body_side b\<rparr>"

definition post_orders ::
  "js_env \<Rightarrow> ('r, 'o) clob \<Rightarrow> order_body \<Rightarrow> 'r facade \<Rightarrow> http_response \<times> 'r facade" where
  "post_orders env cl b s =
     (if \<not> truthy (body_tokenId b) \<or> \<not> truthy (body_price b)
         \<or> \<not> truthy (body_size b) \<or> \<not> truthy (body_side b)
        then (error_response 400 ''Missing required fields: tokenId, price, size, side'', s)
      else if body_side b \<noteq> JStr ''BUY'' \<and> body_side b \<noteq> JStr ''SELL''
        then (error_response 400 ''Side must be either BUY or SELL'', s)
      else if js_le (toNumber env (body_price b)) (Fin 0)
              \<or> js_le (Fin 1) (toNumber env (body_price b))
        then (error_response 400 ''Price must be between 0 and 1'', s)
      else if js_le (toNumber env (body_size b)) (Fin 0)
        then (error_response 400 ''Size must be greater than 0'', s)
      else case createOrder env cl (order_params env b) s of
             (Inl e, s') \<Rightarrow> (error_response 500 (message_or e ''Failed to create order''), s')
           | (Inr orderResponse, s') \<Rightarrow>
               (\<lparr>status = 200, body = OrderBody (success orderResponse) orderResponse\<rparr>, s'))"

subsection \<open>\<^verbatim>\<open>DELETE /orders\<close>\<close>

definition delete_orders ::
  "('r, 'o) clob \<Rightarrow> jsval \<Rightarrow> 'r facade \<Rightarrow> http_response \<times> 'r facade" where
  "delete_orders cl tid s =
     (case cancelAllOrders cl tid s of
        (Inl e, s') \<Rightarrow> (error_response 500 (message_or e ''Failed to cancel orders''), s')
      | (Inr result, s') \<Rightarrow> (\<lparr>status = 200, body = CancelAllBody result\<rparr>, s'))"


section \<open>Concurrent first use\<close>

text \<open>
  An \<^verbatim>\<open>async\<close> method runs without interruption up to its next \<^verbatim>\<open>await\<close> of a
  pending promise. A call of a credentialed method therefore runs
  \<^verbatim>\<open>ensureInitialized\<close> and \<^verbatim>\<open>initialize\<close> in two uninterrupted pieces: the first
  tests the flag and, when it is unset, calls \<^verbatim>\<open>deriveApiKey\<close> and suspends; the
  second runs when that promise settles, and sets the flag when it was fulfilled.
  Other calls may start between the two pieces. A direct call of \<^verbatim>\<open>initialize\<close>, as
  the server makes at startup, runs the same two pieces.
\<close>

datatype call_state = Awaiting | Proceeds | Throws

record conc =
  conc_initialized :: bool
  derive_calls :: nat
  callers :: "call_state list"

datatype action = Call | Settle nat bool

definition call_method :: "conc \<Rightarrow> conc" where
  \<comment> \<open>a new call, up to its first pending \<^verbatim>\<open>await\<close>\<close>
  "call_method c =
     (if conc_initialized c then c\<lparr>callers := callers c @ [Proceeds]\<rparr>
      else c\<lparr>derive_calls := derive_calls c + 1, callers := callers c @ [Awaiting]\<rparr>)"

definition settle :: "nat \<Rightarrow> bool \<Rightarrow> conc \<Rightarrow> conc" where
  \<comment> \<open>the \<^verbatim>\<open>deriveApiKey\<close> promise of call \<open>i\<close> is fulfilled (\<open>True\<close>) or rejected\<close>
  "settle i ok c =
     (if i < length (callers c) \<and> callers c ! i = Awaiting
        then (if ok then c\<lparr>conc_initialized := True, callers := (callers c)[i := Proceeds]\<rparr>
              else c\<lparr>callers := (callers c)[i := Throws]\<rparr>)
      else c)"

fun step :: "action \<Rightarrow> conc \<Rightarrow> conc" where
  "step Call c = call_method c"
| "step (Settle i ok) c = settle i ok c"

fun run :: "action list \<Rightarrow> conc \<Rightarrow> conc" where
  "run [] c = c"
| "run (a # as) c = run as (step a c)"

definition uninitialized :: conc where
  "uninitialized = \<lparr>conc_initialized = False, derive_calls = 0, callers = []\<rparr>"

section \<open>What the properties are stated with\<close>




definition passes_validation :: "js_env \<Rightarrow> order_body \<Rightarrow> bool" where
  \<comment> \<open>none of the four checks of \<^verbatim>\<open>POST /orders\<close> fires\<close>
  "passes_validation env b =
     (truthy (body_tokenId b) \<and> truthy (body_price b) \<and> truthy (body_size b)
      \<and> truthy (body_side b)
      \<and> (body_side b = JStr ''BUY'' \<or> body_side b = JStr ''SELL'')
      \<and> \<not> js_le (toNumber env (body_price b)) (Fin 0)
      \<and> \<not> js_le (Fin 1) (toNumber env (body_price b))
      \<and> \<not> js_le (toNumber env (body_size b)) (Fin 0))"

fun is_error_body :: "json_body \<Rightarrow> bool" where
  "is_error_body (ErrorBody msg) = True"
| "is_error_body _ = False"


section \<open>Fixtures for the concrete runs\<close>

text \<open>
  A runtime in which no string reads as a number, which prints the two numbers the
  runs below send and words its \<^verbatim>\<open>TypeError\<close> in one way; a remote service with one state that hands out a fixed order book,
  a fixed answer to a posted order, a fixed list of open orders, and refuses to
  cancel the orders named in \<open>failing\<close>.
\<close>

definition test_env :: js_env where
  "test_env =
     \<lparr>str_parseFloat = (\<lambda>s. NaN), str_parseInt = (\<lambda>s. NaN), str_toNumber = (\<lambda>s. NaN),
      num_toString = (\<lambda>n. if n = Fin (1 / 2) then ''0.5'' else if n = Fin 10 then ''10'' else ''0''),
      null_read_message = (\<lambda>property. ''Cannot read properties of undefined'')\<rparr>"

definition test_clob ::
  "order_book_summary \<Rightarrow> (thrown + post_response option) \<Rightarrow> (thrown + open_order list)
     \<Rightarrow> string list \<Rightarrow> (unit, unit) clob" where
  "test_clob book posted orders failing =
     \<lparr>deriveApiKey = (\<lambda>r. (Inr (), r)),
      clob_getOrderBook = (\<lambda>t r. (Inr book, r)),
      clob_createOrder = (\<lambda>a r. (Inr (), r)),
      clob_postOrder = (\<lambda>signedOrder t r. (posted, r)),
      clob_cancelOrder =
        (\<lambda>i r. (if List.member failing i then Inl (Thrown (JStr ''order not found'')) else Inr (), r)),
      clob_getOrders = (\<lambda>r. (orders, r))\<rparr>"

definition no_order_id :: post_response where
  \<comment> \<open>the empty object \<^verbatim>\<open>{}\<close>\<close>
  "no_order_id =
     \<lparr>orderID = JUndefined, response_error = JUndefined, response_status = JUndefined\<rparr>"

definition rejection_response :: post_response where
  \<comment> \<open>\<^verbatim>\<open>{error:"not enough balance / allowance", status:400}\<close>\<close>
  "rejection_response =
     \<lparr>orderID = JUndefined, response_error = JStr ''not enough balance / allowance'',
      response_status = JNum (Fin 400)\<rparr>"

definition fresh :: "unit facade" where
  "fresh = \<lparr>initialized = False, remote = (), trace = []\<rparr>"

definition ready :: "unit facade" where
  "ready = \<lparr>initialized = True, remote = (), trace = []\<rparr>"

definition empty_book :: order_book_summary where
  "empty_book = \<lparr>raw_bids = [], raw_asks = []\<rparr>"

definition num_level :: "jsnum \<Rightarrow> jsnum \<Rightarrow> raw_level" where
  "num_level p sz = \<lparr>raw_price = JNum p, raw_size = JNum sz\<rparr>"

definition scenario_book :: order_book_summary where
  \<comment> \<open>\<^verbatim>\<open>{bids:[{price:0.97,size:10}], asks:[{price:0.975,size:5}]}\<close>\<close>
  "scenario_book =
     \<lparr>raw_bids = [num_level (fl (97 / 100)) (Fin 10)],
      raw_asks = [num_level (fl (975 / 1000)) (Fin 5)]\<rparr>"

definition asks_only_book :: order_book_summary where
  \<comment> \<open>\<^verbatim>\<open>{bids:[], asks:[{price:0.5,size:10}]}\<close>\<close>
  "asks_only_book = \<lparr>raw_bids = [], raw_asks = [num_level (Fin (1 / 2)) (Fin 10)]\<rparr>"


definition order_T :: order_body where
  \<comment> \<open>\<^verbatim>\<open>{tokenId:"T", price:0.5, size:10, side:"BUY"}\<close>\<close>
  "order_T =
     \<lparr>body_tokenId = JStr ''T'', body_price = JNum (Fin (1 / 2)),
      body_size = JNum (Fin 10), body_side = JStr ''BUY''\<rparr>"



section \<open>Properties of the facade and the router\<close>

subsection \<open>The rounding\<close>

text \<open>
  \<open>floor_log2\<close> finds the binary exponent, so \<open>round_mag\<close> rounds to a multiple of the
  unit in the last place of that exponent, at most half a unit away, and the test of
  the exponent in \<open>overflows\<close> only saves computing \<open>2 ^ 1024\<close>.
\<close>

lemma pow2_powi: "pow2 e = 2 powi e"
  by (simp add: pow2_def power_int_def field_simps)

lemma pow2_pos: "0 < pow2 e"
  by (simp add: pow2_def)

lemma pow2_add: "pow2 (a + b) = pow2 a * pow2 b"
  by (simp add: pow2_powi power_int_add)

lemma pow2_mono: "a \<le> b \<Longrightarrow> pow2 a \<le> pow2 b"
  by (simp add: pow2_powi power_int_increasing)

lemma pow2_strict_mono: "a < b \<Longrightarrow> pow2 a < pow2 b"
  by (simp add: pow2_powi power_int_strict_increasing)

lemma pow2_of_int: "0 \<le> e \<Longrightarrow> pow2 e = of_int (2 ^ nat e)"
  by (simp add: pow2_def)

lemma bitlen_bounds:
  "0 < n \<Longrightarrow> 1 \<le> bitlen n \<and> 2 ^ nat (bitlen n - 1) \<le> n \<and> n < 2 ^ nat (bitlen n)"
proof (induction n rule: bitlen.induct)
  case (1 n)
  show ?case
  proof (cases "n = 1")
    case True
    then show ?thesis by (simp add: bitlen.simps [of 1] bitlen.simps [of 0])
  next
    case False
    with "1.prems" have half: "0 < n div 2" by simp
    have n: "\<not> n \<le> 0" using "1.prems" by simp
    from "1.IH" [OF n half] have
      ih: "1 \<le> bitlen (n div 2)" "2 ^ nat (bitlen (n div 2) - 1) \<le> n div 2"
        "n div 2 < 2 ^ nat (bitlen (n div 2))"
      by simp_all
    have len: "bitlen n = bitlen (n div 2) + 1"
      using n by (simp add: bitlen.simps [of n])
    have exp: "nat (bitlen (n div 2)) = Suc (nat (bitlen (n div 2) - 1))"
      using ih(1) by simp
    have lower: "2 ^ nat (bitlen (n div 2)) \<le> n"
    proof -
      have "(2::int) ^ nat (bitlen (n div 2)) = 2 * 2 ^ nat (bitlen (n div 2) - 1)"
        by (simp add: exp)
      also have "\<dots> \<le> 2 * (n div 2)" using ih(2) by simp
      also have "\<dots> \<le> n" by simp
      finally show ?thesis .
    qed
    have upper: "n < 2 * 2 ^ nat (bitlen (n div 2))"
    proof -
      have "n div 2 + 1 \<le> 2 ^ nat (bitlen (n div 2))" using ih(3) by simp
      then have "2 * (n div 2) + 2 \<le> 2 * 2 ^ nat (bitlen (n div 2))" by simp
      moreover have "n < 2 * (n div 2) + 2" by presburger
      ultimately show ?thesis by simp
    qed
    show ?thesis
      using ih(1) lower upper by (simp add: len nat_add_distrib)
  qed
qed

lemma floor_log2_bounds:
  assumes "0 < a"
  shows "pow2 (floor_log2 a) \<le> a \<and> a < pow2 (floor_log2 a + 1)"
proof -
  obtain p q where pq: "quotient_of a = (p, q)" by (cases "quotient_of a")
  have q: "0 < q" using quotient_of_denom_pos [OF pq] .
  have a: "a = of_int p / of_int q" using quotient_of_div [OF pq] .
  have p: "0 < p" using assms q by (simp add: a zero_less_divide_iff)
  let ?d = "bitlen p - bitlen q"
  from bitlen_bounds [OF p] have bp: "1 \<le> bitlen p" "2 ^ nat (bitlen p - 1) \<le> p"
    "p < 2 ^ nat (bitlen p)" by simp_all
  from bitlen_bounds [OF q] have bq: "1 \<le> bitlen q" "2 ^ nat (bitlen q - 1) \<le> q"
    "q < 2 ^ nat (bitlen q)" by simp_all
  have p_lo: "pow2 (bitlen p - 1) \<le> of_int p"
    using bp by (simp add: pow2_of_int del: of_int_power)
  have p_hi: "of_int p < pow2 (bitlen p)"
    using bp by (simp add: pow2_of_int del: of_int_power)
  have q_lo: "pow2 (bitlen q - 1) \<le> of_int q"
    using bq by (simp add: pow2_of_int del: of_int_power)
  have q_hi: "of_int q < pow2 (bitlen q)"
    using bq by (simp add: pow2_of_int del: of_int_power)
  have qr: "(0::rat) < of_int q" using q by simp
  have upper: "a < pow2 (?d + 1)"
  proof -
    have "of_int p < pow2 (bitlen p)" by (rule p_hi)
    also have "pow2 (bitlen p) = pow2 (?d + 1) * pow2 (bitlen q - 1)"
      by (simp add: pow2_add [symmetric])
    also have "\<dots> \<le> pow2 (?d + 1) * of_int q"
      using q_lo pow2_pos [of "?d + 1"] by (simp add: mult_left_mono less_imp_le)
    finally show ?thesis using qr by (simp add: a pos_divide_less_eq)
  qed
  have lower: "pow2 (?d - 1) \<le> a"
  proof -
    have "pow2 (?d - 1) * of_int q \<le> pow2 (?d - 1) * pow2 (bitlen q)"
      using q_hi pow2_pos [of "?d - 1"] by (simp add: mult_left_mono less_imp_le)
    also have "\<dots> = pow2 (bitlen p - 1)"
      by (simp add: pow2_add [symmetric])
    also have "\<dots> \<le> of_int p" by (rule p_lo)
    finally show ?thesis using qr by (simp add: a pos_le_divide_eq)
  qed
  show ?thesis
    using upper lower by (simp add: floor_log2_def pq Let_def)
qed

lemma round_half_even_near: "\<bar>of_int (round_half_even x) - x\<bar> \<le> 1 / 2"
proof -
  have "of_int \<lfloor>x\<rfloor> \<le> x" "x < of_int \<lfloor>x\<rfloor> + 1" by linarith+
  then show ?thesis
    by (auto simp: round_half_even_def Let_def abs_le_iff)
qed

lemma round_half_even_le: "x \<le> of_int n \<Longrightarrow> round_half_even x \<le> n"
proof -
  assume x: "x \<le> of_int n"
  have fl: "\<lfloor>x\<rfloor> \<le> n" using x by (simp add: floor_le_iff)
  show ?thesis
  proof (cases "\<lfloor>x\<rfloor> = n")
    case True
    then have "x = of_int n" using x by (metis floor_le_iff of_int_floor_le order_antisym_conv)
    then show ?thesis by (simp add: round_half_even_def)
  next
    case False
    then have "\<lfloor>x\<rfloor> + 1 \<le> n" using fl by simp
    then show ?thesis by (auto simp: round_half_even_def Let_def)
  qed
qed

lemma round_mag_near:
  "\<bar>round_mag a - a\<bar> \<le> pow2 (max (floor_log2 a) (- 1022) - 52) / 2"
proof -
  let ?e = "max (floor_log2 a) (- 1022) - 52"
  have pos: "0 < pow2 ?e" by (rule pow2_pos)
  have "round_mag a - a = (of_int (round_half_even (a / pow2 ?e)) - a / pow2 ?e) * pow2 ?e"
    using pos by (simp add: round_mag_def Let_def left_diff_distrib)
  then have "\<bar>round_mag a - a\<bar>
          = \<bar>of_int (round_half_even (a / pow2 ?e)) - a / pow2 ?e\<bar> * pow2 ?e"
    using pos by (simp only: abs_mult abs_of_pos)
  also have "\<dots> \<le> 1 / 2 * pow2 ?e"
    using round_half_even_near [of "a / pow2 ?e"] pos
    by (intro mult_right_mono) simp_all
  finally show ?thesis by simp
qed

lemma round_mag_upper:
  assumes "0 < a"
  shows "round_mag a \<le> pow2 (max (floor_log2 a) (- 1022) + 1)"
proof -
  let ?E = "max (floor_log2 a) (- 1022)"
  let ?e = "?E - 52"
  have pos: "0 < pow2 ?e" by (rule pow2_pos)
  have "a < pow2 (floor_log2 a + 1)"
    using floor_log2_bounds [OF assms] by simp
  also have "\<dots> \<le> pow2 (?E + 1)" by (rule pow2_mono) simp
  also have "\<dots> = pow2 53 * pow2 ?e"
  proof -
    have "?E + 1 = 53 + ?e" by simp
    then show ?thesis by (simp only: pow2_add)
  qed
  finally have "a / pow2 ?e \<le> pow2 53"
    using pos by (simp add: pos_divide_le_eq less_imp_le)
  then have "a / pow2 ?e \<le> of_int (2 ^ 53)"
    by (simp add: pow2_def)
  then have "round_half_even (a / pow2 ?e) \<le> 2 ^ 53"
    by (rule round_half_even_le)
  then have "(of_int (round_half_even (a / pow2 ?e)) :: rat) \<le> of_int (2 ^ 53)"
    by (simp only: of_int_le_iff)
  then have "of_int (round_half_even (a / pow2 ?e)) * pow2 ?e \<le> pow2 53 * pow2 ?e"
    using pos by (simp add: pow2_def)
  moreover have "pow2 53 * pow2 ?e = pow2 (?E + 1)"
  proof -
    have "?E + 1 = 53 + ?e" by simp
    then show ?thesis by (simp only: pow2_add)
  qed
  ultimately show ?thesis
    by (simp add: round_mag_def Let_def)
qed

lemma overflows_iff:
  assumes "0 < a"
  shows "overflows a \<longleftrightarrow> pow2 1024 \<le> round_mag a"
proof (cases "floor_log2 a < 1023")
  case True
  have "round_mag a \<le> pow2 (max (floor_log2 a) (- 1022) + 1)"
    by (rule round_mag_upper [OF assms])
  also have "\<dots> \<le> pow2 1023"
    using True by (intro pow2_mono) simp
  also have "\<dots> < pow2 1024"
    by (rule pow2_strict_mono) simp
  finally show ?thesis
    using True by (simp add: overflows_def)
next
  case False
  then show ?thesis by (simp add: overflows_def)
qed

lemma fl_near:
  assumes "fl q = Fin r"
  shows "\<bar>r - q\<bar> \<le> pow2 (max (floor_log2 \<bar>q\<bar>) (- 1022) - 52) / 2"
proof (cases "q = 0")
  case True
  then show ?thesis
    using assms pow2_pos [of "max (floor_log2 \<bar>q\<bar>) (- 1022) - 52"]
    by (simp add: fl_def less_imp_le)
next
  case False
  have near: "\<bar>round_mag \<bar>q\<bar> - \<bar>q\<bar>\<bar> \<le> pow2 (max (floor_log2 \<bar>q\<bar>) (- 1022) - 52) / 2"
    by (rule round_mag_near)
  from assms False have r: "r = (if q < 0 then - round_mag \<bar>q\<bar> else round_mag \<bar>q\<bar>)"
    by (auto simp: fl_def Let_def split: if_splits)
  have "\<bar>r - q\<bar> = \<bar>round_mag \<bar>q\<bar> - \<bar>q\<bar>\<bar>"
  proof (cases "q < 0")
    case True
    then have "r - q = - (round_mag \<bar>q\<bar> - \<bar>q\<bar>)" by (simp add: r)
    then show ?thesis by (simp only: abs_minus_cancel)
  next
    case False
    then show ?thesis by (simp add: r)
  qed
  then show ?thesis
    using near by simp
qed

text \<open>The rounding on known binary64 values: 0.1, 1/3, and two ties just above \<open>2 ^ 53\<close>.\<close>

lemma fl_known_values:
  "fl (1 / 10) = Fin (3602879701896397 / 36028797018963968)"
  "fl (1 / 3) = Fin (6004799503160661 / 18014398509481984)"
  "fl (9007199254740993) = Fin 9007199254740992"
  "fl (9007199254740995) = Fin 9007199254740996"
  by code_simp+


subsection \<open>Helper facts\<close>

lemma remote_call_remote:
  "remote_call c f s =
     (fst (f (remote s)),
      s\<lparr>remote := snd (f (remote s)), trace := trace s @ [(c, returned (fst (f (remote s))))]\<rparr>)"
  by (simp add: remote_call_def split: prod.splits)

lemma ensureInitialized_cases:
  assumes "fst (ensureInitialized cl s) = Inr ()"
  obtains s1 where "ensureInitialized cl s = (Inr (), s1)"
  using assms by (cases "ensureInitialized cl s") auto

lemma ensureInitialized_ready: "initialized s \<Longrightarrow> ensureInitialized cl s = (Inr (), s)"
  by (simp add: ensureInitialized_def)

lemma fl_minus_tenth: "fl (- (1 / 10)) = Fin (- (3602879701896397 / 36028797018963968))"
  by code_simp

text \<open>
  Every call of the facade's \<^verbatim>\<open>createOrder\<close> reaches the remote service at least once
  (to derive credentials, or to create the order), so a request that leaves the
  record of remote calls as it was has not called it.
\<close>

lemma createOrder_records_a_call:
  "length (trace s) < length (trace (snd (createOrder env cl params s)))"
  by (auto simp: createOrder_def ensureInitialized_def initialize_def remote_call_def Let_def
      split: prod.splits sum.splits option.splits)

subsection \<open>\<^verbatim>\<open>GET /markets\<close>: the filters\<close>

lemma markets_params_active_closed_limit:
  "active (markets_params env q) = Some (query_active q = JStr ''true'')
   \<and> closed (markets_params env q) = Some (query_closed q = JStr ''true'')
   \<and> limit (markets_params env (q\<lparr>query_limit := JUndefined\<rparr>)) = Some (Fin 50)"
  by (simp add: markets_params_def)

text \<open>
  What the metadata service is asked for \<^verbatim>\<open>GET /markets?archived=true\<close>: the handler
  always sends the three filters, and here \<^verbatim>\<open>archived=false\<close>.
\<close>

lemma get_markets_archived_true_query:
  "query_params env
     (markets_params env
        \<lparr>query_active = JUndefined, query_closed = JUndefined,
         query_archived = JStr ''true'', query_limit = JUndefined\<rparr>)
     = [(''active'', ''false''), (''closed'', ''false''), (''archived'', ''false''),
        (''limit'', num_toString env (Fin 50))]"
  by (simp add: query_params_def markets_params_def bool_toString_def)

text \<open>
  C2. The claim: each of \<^verbatim>\<open>active\<close>, \<^verbatim>\<open>closed\<close> and \<^verbatim>\<open>archived\<close> is true exactly
  when its query-string value is the string \<^verbatim>\<open>"true"\<close>, and the limit defaults to 50.
  The code compares \<^verbatim>\<open>archived\<close> with \<^verbatim>\<open>'false'\<close>: the request
  \<^verbatim>\<open>GET /markets?archived=true\<close> passes \<^verbatim>\<open>archived: false\<close> to \<^verbatim>\<open>getMarkets\<close>, and
  \<^verbatim>\<open>?archived=false\<close> passes \<^verbatim>\<open>archived: true\<close>. The two sibling filters and the
  default of the limit are as claimed (\<open>markets_params_active_closed_limit\<close>).
\<close>

theorem markets_archived_inverted:
  "archived (markets_params env (q\<lparr>query_archived := JStr ''true''\<rparr>)) = Some False
   \<and> archived (markets_params env (q\<lparr>query_archived := JStr ''false''\<rparr>)) = Some True"
  by (simp add: markets_params_def)

subsection \<open>\<^verbatim>\<open>POST /orders\<close>: validation\<close>

text \<open>
  C4. A body with \<^verbatim>\<open>price\<close> 0, 1 or -0.1, with \<^verbatim>\<open>size\<close> 0 or -5, or with
  \<^verbatim>\<open>side\<close> \<^verbatim>\<open>"HOLD"\<close> is answered with status 400 and the envelope
  \<^verbatim>\<open>{success:false, error:...}\<close>, whatever the other fields are, and the facade is left
  as it was: no remote call is recorded, so \<^verbatim>\<open>createOrder\<close> was not called
  (\<open>createOrder_records_a_call\<close>).
\<close>

theorem post_orders_rejects_invalid:
  assumes "body_price b = JNum (Fin 0) \<or> body_price b = JNum (Fin 1)
           \<or> body_price b = JNum (fl (- (1 / 10)))
           \<or> body_size b = JNum (Fin 0) \<or> body_size b = JNum (Fin (- 5))
           \<or> body_side b = JStr ''HOLD''"
  shows "status (fst (post_orders env cl b s)) = 400
         \<and> is_error_body (body (fst (post_orders env cl b s)))
         \<and> snd (post_orders env cl b s) = s"
  using assms
  by (auto simp: post_orders_def error_response_def js_le_def fl_minus_tenth)

theorem post_orders_rejects_invalid_witness:
  "status (fst (post_orders test_env
       (test_clob empty_book (Inr (Some (no_order_id\<lparr>orderID := JStr ''id1''\<rparr>))) (Inr []) [])
       (order_T\<lparr>body_price := JNum (Fin 1)\<rparr>) ready)) = 400
   \<and> is_error_body (body (fst (post_orders test_env
       (test_clob empty_book (Inr (Some (no_order_id\<lparr>orderID := JStr ''id1''\<rparr>))) (Inr []) [])
       (order_T\<lparr>body_price := JNum (Fin 1)\<rparr>) ready)))
   \<and> snd (post_orders test_env
       (test_clob empty_book (Inr (Some (no_order_id\<lparr>orderID := JStr ''id1''\<rparr>))) (Inr []) [])
       (order_T\<lparr>body_price := JNum (Fin 1)\<rparr>) ready) = ready
   \<and> passes_validation test_env order_T"
  using post_orders_rejects_invalid [of "order_T\<lparr>body_price := JNum (Fin 1)\<rparr>" test_env
      "test_clob empty_book (Inr (Some (no_order_id\<lparr>orderID := JStr ''id1''\<rparr>))) (Inr []) []" ready]
  by (simp add: order_T_def passes_validation_def js_le_def test_env_def)

subsection \<open>\<^verbatim>\<open>createOrder\<close>: rejected and accepted orders\<close>

text \<open>
  The rejection the code handles is one the remote service throws, as a value other than
  \<^verbatim>\<open>null\<close> or \<^verbatim>\<open>undefined\<close>: it comes back as the failure result, and the route
  sends whatever result comes back with status 200.
\<close>

lemma createOrder_thrown_on_create:
  assumes init: "fst (ensureInitialized cl s) = Inr ()"
    and thrown: "fst (clob_createOrder cl (order_args_of env params)
                        (remote (snd (ensureInitialized cl s)))) = Inl e"
  shows "fst (createOrder env cl params s) = order_failed env e"
proof -
  from init obtain s1 where s1: "ensureInitialized cl s = (Inr (), s1)"
    by (rule ensureInitialized_cases)
  show ?thesis
    using thrown by (simp add: createOrder_def s1 remote_call_remote Let_def)
qed

lemma createOrder_thrown_on_post:
  assumes init: "fst (ensureInitialized cl s) = Inr ()"
    and created: "clob_createOrder cl (order_args_of env params)
                    (remote (snd (ensureInitialized cl s))) = (Inr signedOrder, r1)"
    and thrown: "fst (clob_postOrder cl signedOrder ''GTC'' r1) = Inl e"
  shows "fst (createOrder env cl params s) = order_failed env e"
proof -
  from init obtain s1 where s1: "ensureInitialized cl s = (Inr (), s1)"
    by (rule ensureInitialized_cases)
  show ?thesis
    using created thrown by (simp add: createOrder_def s1 remote_call_remote Let_def)
qed

lemma order_failed_with_message:
  "order_failed env (Thrown m)
     = Inr \<lparr>orderId = JStr [], success = False,
            or_message = (if truthy m then m else JStr ''Failed to create order'')\<rparr>"
  by (simp add: order_failed_def)

lemma order_failed_nullish:
  "order_failed env ThrownNullish = Inl (Error (null_read_message env ''message''))"
  by (simp add: order_failed_def)

lemma post_orders_sends_result:
  assumes "passes_validation env b"
    and "fst (createOrder env cl (order_params env b) s) = Inr r"
  shows "fst (post_orders env cl b s) = \<lparr>status = 200, body = OrderBody (success r) r\<rparr>"
  using assms
  by (auto simp: post_orders_def passes_validation_def split: prod.splits sum.splits)

lemma post_orders_sends_500:
  assumes "passes_validation env b"
    and "fst (createOrder env cl (order_params env b) s) = Inl e"
  shows "fst (post_orders env cl b s)
           = error_response 500 (message_or e ''Failed to create order'')"
  using assms
  by (auto simp: post_orders_def passes_validation_def split: prod.splits sum.splits)

lemma order_T_passes_validation: "passes_validation test_env order_T"
  by (simp add: passes_validation_def order_T_def js_le_def test_env_def)

lemma ready_is_initialized: "fst (ensureInitialized cl ready) = Inr ()"
  by (simp add: ensureInitialized_def ready_def)

lemma createOrder_returned_rejection:
  "fst (createOrder test_env (test_clob empty_book (Inr (Some rejection_response)) (Inr []) [])
          (order_params test_env order_T) ready)
     = Inr \<lparr>orderId = JStr ''unknown'', success = True,
            or_message = JStr ''Order placed successfully''\<rparr>"
  by (simp add: createOrder_def ensureInitialized_def ready_def remote_call_def test_clob_def
      rejection_response_def)

lemma createOrder_thrown_nullish:
  "fst (createOrder test_env (test_clob empty_book (Inl ThrownNullish) (Inr []) [])
          (order_params test_env order_T) ready)
     = Inl (Error ''Cannot read properties of undefined'')"
  by (simp add: createOrder_def ensureInitialized_def ready_def remote_call_def test_clob_def
      order_failed_def test_env_def)

text \<open>
  C5. The claim: when the remote service rejects an order, \<^verbatim>\<open>createOrder\<close> never
  throws and returns \<^verbatim>\<open>success = false\<close> with a message, which the route sends with
  status 200. The code reports a failure only from its \<^verbatim>\<open>catch\<close> block and never reads
  the response's own \<^verbatim>\<open>error\<close> and \<^verbatim>\<open>status\<close>. For the body
  \<^verbatim>\<open>{tokenId:"T", price:0.5, size:10, side:"BUY"}\<close>: a rejection that \<^verbatim>\<open>postOrder\<close> hands
  back as the value \<^verbatim>\<open>{error:"not enough balance / allowance", status:400}\<close> is answered
  200 with \<^verbatim>\<open>success: true\<close>, \<^verbatim>\<open>orderId: "unknown"\<close> and the message
  \<^verbatim>\<open>Order placed successfully\<close>; and a rejection thrown as \<^verbatim>\<open>null\<close> or \<^verbatim>\<open>undefined\<close>
  makes \<^verbatim>\<open>createOrder\<close> itself throw, which the route answers with 500. A rejection
  thrown as any other value is reported as claimed (\<open>createOrder_thrown_on_create\<close>,
  \<open>createOrder_thrown_on_post\<close>, \<open>order_failed_with_message\<close>, \<open>post_orders_sends_result\<close>).
\<close>

theorem createOrder_rejection_not_reported:
  "fst (post_orders test_env
          (test_clob empty_book (Inr (Some rejection_response)) (Inr []) []) order_T ready)
     = \<lparr>status = 200,
        body = OrderBody True
                 \<lparr>orderId = JStr ''unknown'', success = True,
                  or_message = JStr ''Order placed successfully''\<rparr>\<rparr>
   \<and> fst (post_orders test_env
          (test_clob empty_book (Inl ThrownNullish) (Inr []) []) order_T ready)
     = \<lparr>status = 500, body = ErrorBody ''Cannot read properties of undefined''\<rparr>"
  using post_orders_sends_result [OF order_T_passes_validation createOrder_returned_rejection]
    post_orders_sends_500 [OF order_T_passes_validation createOrder_thrown_nullish]
  by (simp add: error_response_def message_or_def)

theorem createOrder_rejection_not_reported_witness:
  "status (fst (post_orders test_env
       (test_clob empty_book (Inr (Some rejection_response)) (Inr []) []) order_T ready)) = 200
   \<and> status (fst (post_orders test_env
       (test_clob empty_book (Inl ThrownNullish) (Inr []) []) order_T ready)) = 500
   \<and> truthy (response_error rejection_response)
   \<and> passes_validation test_env order_T"
  using createOrder_rejection_not_reported order_T_passes_validation
  by (simp add: rejection_response_def)

text \<open>
  C10, as amended. When initialization succeeds and both remote calls return: if
  \<^verbatim>\<open>postOrder\<close> resolved to a value other than \<^verbatim>\<open>null\<close> or \<^verbatim>\<open>undefined\<close>,
  \<^verbatim>\<open>createOrder\<close> returns \<^verbatim>\<open>success = true\<close>, the message
  \<^verbatim>\<open>Order placed successfully\<close>, and as \<^verbatim>\<open>orderId\<close> the response's \<^verbatim>\<open>orderID\<close>, or
  \<^verbatim>\<open>"unknown"\<close> when that field is absent or falsy; if it resolved to \<^verbatim>\<open>null\<close> or
  \<^verbatim>\<open>undefined\<close>, the read of \<^verbatim>\<open>response.orderID\<close> throws inside the \<^verbatim>\<open>try\<close> block and
  \<^verbatim>\<open>createOrder\<close> returns \<^verbatim>\<open>success = false\<close> with an empty \<^verbatim>\<open>orderId\<close> and the
  message of that \<^verbatim>\<open>TypeError\<close>.
\<close>

theorem createOrder_success_mapping:
  assumes init: "fst (ensureInitialized cl s) = Inr ()"
    and created: "clob_createOrder cl (order_args_of env params)
                    (remote (snd (ensureInitialized cl s))) = (Inr signedOrder, r1)"
    and posted: "clob_postOrder cl signedOrder ''GTC'' r1 = (Inr resolved, r2)"
  shows "(\<forall>response. resolved = Some response \<longrightarrow>
            fst (createOrder env cl params s)
              = Inr \<lparr>orderId = (if truthy (orderID response) then orderID response
                                 else JStr ''unknown''),
                     success = True, or_message = JStr ''Order placed successfully''\<rparr>)
         \<and> (resolved = None \<longrightarrow>
              fst (createOrder env cl params s)
                = Inr \<lparr>orderId = JStr [], success = False,
                       or_message =
                         (if null_read_message env ''orderID'' \<noteq> []
                          then JStr (null_read_message env ''orderID'')
                          else JStr ''Failed to create order'')\<rparr>)"
proof -
  from init obtain s1 where s1: "ensureInitialized cl s = (Inr (), s1)"
    by (rule ensureInitialized_cases)
  show ?thesis
    using created posted
    by (cases resolved)
      (simp_all add: createOrder_def s1 remote_call_remote Let_def order_failed_def)
qed

theorem createOrder_success_mapping_witness:
  "fst (ensureInitialized
          (test_clob empty_book (Inr (Some no_order_id)) (Inr []) []) ready) = Inr ()
   \<and> clob_createOrder (test_clob empty_book (Inr (Some no_order_id)) (Inr []) [])
        (order_args_of test_env (order_params test_env order_T))
        (remote (snd (ensureInitialized
           (test_clob empty_book (Inr (Some no_order_id)) (Inr []) []) ready)))
      = (Inr (), ())
   \<and> clob_postOrder (test_clob empty_book (Inr (Some no_order_id)) (Inr []) [])
        () ''GTC'' () = (Inr (Some no_order_id), ())
   \<and> fst (createOrder test_env
        (test_clob empty_book (Inr (Some no_order_id)) (Inr []) [])
        (order_params test_env order_T) ready)
      = Inr \<lparr>orderId = JStr ''unknown'', success = True,
             or_message = JStr ''Order placed successfully''\<rparr>"
proof -
  let ?cl = "test_clob empty_book (Inr (Some no_order_id)) (Inr []) []"
  have init: "fst (ensureInitialized ?cl ready) = Inr ()"
    by (rule ready_is_initialized)
  have created: "clob_createOrder ?cl (order_args_of test_env (order_params test_env order_T))
                   (remote (snd (ensureInitialized ?cl ready))) = (Inr (), ())"
    by (simp add: test_clob_def)
  have posted: "clob_postOrder ?cl () ''GTC'' () = (Inr (Some no_order_id), ())"
    by (simp add: test_clob_def)
  show ?thesis
    using createOrder_success_mapping [OF init created posted] init created posted
    by (simp add: no_order_id_def)
qed

text \<open>
  C10, as claimed, fails when \<^verbatim>\<open>postOrder\<close> resolves to \<^verbatim>\<open>null\<close> or \<^verbatim>\<open>undefined\<close>:
  both remote calls returned, and the result is \<^verbatim>\<open>success = false\<close>.
\<close>

theorem createOrder_nullish_response_counterexample:
  "returned (fst (clob_createOrder (test_clob empty_book (Inr None) (Inr []) [])
       (order_args_of test_env (order_params test_env order_T)) ()))
   \<and> returned (fst (clob_postOrder (test_clob empty_book (Inr None) (Inr []) [])
         () ''GTC'' ()))
   \<and> fst (createOrder test_env (test_clob empty_book (Inr None) (Inr []) [])
        (order_params test_env order_T) ready)
      = Inr \<lparr>orderId = JStr [], success = False,
             or_message = JStr ''Cannot read properties of undefined''\<rparr>"
  by (simp add: createOrder_def ensureInitialized_def ready_def remote_call_def test_clob_def
      order_failed_def test_env_def returned_def)

subsection \<open>\<^verbatim>\<open>cancelAllOrders\<close>: the listing fails\<close>

text \<open>
  C9. When initialization succeeds and the remote listing of open orders throws,
  \<^verbatim>\<open>cancelAllOrders\<close> does not throw: it returns \<^verbatim>\<open>{success:false, cancelledCount:0}\<close>,
  and \<^verbatim>\<open>DELETE /orders\<close> answers 200 with that body.
\<close>

theorem cancelAllOrders_listing_failure:
  assumes init: "fst (ensureInitialized cl s) = Inr ()"
    and listing: "fst (clob_getOrders cl (remote (snd (ensureInitialized cl s)))) = Inl e"
  shows "fst (cancelAllOrders cl tid s) = Inr \<lparr>ca_success = False, cancelledCount = 0\<rparr>
         \<and> fst (delete_orders cl tid s)
             = \<lparr>status = 200, body = CancelAllBody \<lparr>ca_success = False, cancelledCount = 0\<rparr>\<rparr>"
proof -
  from init obtain s1 where s1: "ensureInitialized cl s = (Inr (), s1)"
    by (rule ensureInitialized_cases)
  have "fst (cancelAllOrders cl tid s) = Inr \<lparr>ca_success = False, cancelledCount = 0\<rparr>"
    using listing
    by (simp add: cancelAllOrders_def s1 remote_call_remote)
  then show ?thesis
    by (auto simp: delete_orders_def split: prod.splits sum.splits)
qed

theorem cancelAllOrders_listing_failure_witness:
  "fst (ensureInitialized
          (test_clob empty_book (Inr (Some no_order_id)) (Inl (Thrown (JStr ''timeout''))) [])
          ready) = Inr ()
   \<and> fst (clob_getOrders
        (test_clob empty_book (Inr (Some no_order_id)) (Inl (Thrown (JStr ''timeout''))) [])
        (remote (snd (ensureInitialized
           (test_clob empty_book (Inr (Some no_order_id)) (Inl (Thrown (JStr ''timeout''))) [])
           ready)))) = Inl (Thrown (JStr ''timeout''))
   \<and> fst (delete_orders
        (test_clob empty_book (Inr (Some no_order_id)) (Inl (Thrown (JStr ''timeout''))) [])
        (JStr ''A'') ready)
      = \<lparr>status = 200, body = CancelAllBody \<lparr>ca_success = False, cancelledCount = 0\<rparr>\<rparr>"
proof -
  let ?cl = "test_clob empty_book (Inr (Some no_order_id)) (Inl (Thrown (JStr ''timeout''))) []"
  have init: "fst (ensureInitialized ?cl ready) = Inr ()"
    by (simp add: ensureInitialized_def ready_def)
  have listing: "fst (clob_getOrders ?cl (remote (snd (ensureInitialized ?cl ready))))
                   = Inl (Thrown (JStr ''timeout''))"
    by (simp add: test_clob_def)
  show ?thesis
    using cancelAllOrders_listing_failure [OF init listing, of "JStr ''A''"] init listing
    by simp
qed

text \<open>
  By contrast, a remote failure behind \<^verbatim>\<open>getOrderBook\<close> is thrown on, and the quote route
  answers 500 with the error envelope.
\<close>

lemma get_quote_fetch_failure:
  assumes init: "fst (ensureInitialized cl s) = Inr ()"
    and failed: "fst (clob_getOrderBook cl tid (remote (snd (ensureInitialized cl s)))) = Inl e"
    and tid: "tid \<noteq> []"
  shows "fst (get_quote env cl tid s) = error_response 500 ''Failed to fetch order book''"
proof -
  from init obtain s1 where s1: "ensureInitialized cl s = (Inr (), s1)"
    by (rule ensureInitialized_cases)
  show ?thesis
    using failed tid
    by (simp add: get_quote_def getOrderBook_def s1 remote_call_remote message_or_def)
qed

subsection \<open>\<^verbatim>\<open>getOrderBook\<close>: best bid, best ask and spread\<close>





lemma js_le_not_nan: "js_le a b \<Longrightarrow> \<not> is_nan a \<and> \<not> is_nan b"
  by (auto simp: js_le_def split: if_splits)



text \<open>A price that did not parse makes the best price NaN.\<close>

lemma math_max_from_nan:
  "\<exists>x\<in>set xs. is_nan x \<Longrightarrow> math_max_from h xs = NaN"
  by (induction xs arbitrary: h) auto

lemma math_min_from_nan:
  "\<exists>x\<in>set xs. is_nan x \<Longrightarrow> math_min_from h xs = NaN"
  by (induction xs arbitrary: h) auto









lemma getOrderBook_fetched:
  assumes init: "fst (ensureInitialized cl s) = Inr ()"
    and fetched: "fst (clob_getOrderBook cl tid (remote (snd (ensureInitialized cl s)))) = Inr book"
  shows "fst (getOrderBook env cl tid s) = Inr (market_data env tid book)"
proof -
  from init obtain s1 where s1: "ensureInitialized cl s = (Inr (), s1)"
    by (rule ensureInitialized_cases)
  show ?thesis
    using fetched by (simp add: getOrderBook_def s1 remote_call_remote)
qed





subsection \<open>\<^verbatim>\<open>GET /markets/:tokenId/quote\<close>\<close>

lemma getOrderBook_returns:
  assumes init: "fst (ensureInitialized cl s) = Inr ()"
    and fetched: "fst (clob_getOrderBook cl tid (remote (snd (ensureInitialized cl s)))) = Inr book"
  shows "\<exists>s'. getOrderBook env cl tid s = (Inr (market_data env tid book), s')"
  using getOrderBook_fetched [OF init fetched, of env]
  by (cases "getOrderBook env cl tid s") auto

lemma get_quote_fetched:
  assumes init: "fst (ensureInitialized cl s) = Inr ()"
    and fetched: "fst (clob_getOrderBook cl tid (remote (snd (ensureInitialized cl s)))) = Inr book"
    and tid: "tid \<noteq> []"
  shows "fst (get_quote env cl tid s)
           = \<lparr>status = 200, body = QuoteBody (quote_of env tid (market_data env tid book))\<rparr>"
  using getOrderBook_returns [OF init fetched, of env] tid
  by (auto simp: get_quote_def)

text \<open>
  With no bids, \<^verbatim>\<open>bestBid\<close> is the literal \<^verbatim>\<open>0\<close>, and the handler divides by it:
  the quotient is NaN or an infinity, whatever the asks are, and \<^verbatim>\<open>toFixed\<close> prints it
  as \<^verbatim>\<open>NaN\<close>, \<^verbatim>\<open>Infinity\<close> or \<^verbatim>\<open>-Infinity\<close>.
\<close>

lemma division_by_positive_zero:
  "js_div x (Fin 0) = NaN \<or> js_div x (Fin 0) = PInf \<or> js_div x (Fin 0) = NInf"
  by (cases x) (auto simp: js_div_def signed_inf_def Let_def)

lemma times_100_not_finite:
  "y = NaN \<or> y = PInf \<or> y = NInf \<Longrightarrow>
   js_mul y (Fin 100) = NaN \<or> js_mul y (Fin 100) = PInf \<or> js_mul y (Fin 100) = NInf"
  by (auto simp: js_mul_def signed_inf_def Let_def)

lemma toFixed_not_finite:
  "toFixed env f NaN = ''NaN'' \<and> toFixed env f PInf = ''Infinity''
   \<and> toFixed env f NInf = ''-Infinity''"
  by (simp add: toFixed_def)

lemma quote_empty_bids_not_a_number:
  assumes "raw_bids book = []"
  shows "spreadPercentage (quote_of env tid (market_data env tid book))
           \<in> {''NaN'', ''Infinity'', ''-Infinity''}"
proof -
  have bb: "bestBid (market_data env tid book) = Fin 0"
    using assms by (simp add: market_data_def Let_def)
  let ?y = "js_div (spread (market_data env tid book)) (Fin 0)"
  have "?y = NaN \<or> ?y = PInf \<or> ?y = NInf"
    by (rule division_by_positive_zero)
  then have "js_mul ?y (Fin 100) = NaN \<or> js_mul ?y (Fin 100) = PInf
             \<or> js_mul ?y (Fin 100) = NInf"
    by (rule times_100_not_finite)
  then show ?thesis
    using toFixed_not_finite [of env 3] by (auto simp: quote_of_def bb)
qed

lemma fl_half: "fl (1 / 2) = Fin (1 / 2)"
  by code_simp

lemma market_data_asks_only:
  "market_data env tid asks_only_book
     = \<lparr>tokenId = tid, bestBid = Fin 0, bestAsk = Fin (1 / 2), spread = Fin (1 / 2),
        bids = [], asks = [\<lparr>price = Fin (1 / 2), level_size = Fin 10\<rparr>]\<rparr>"
  using fl_half
  by (simp add: market_data_def asks_only_book_def num_level_def parse_level_def math_min_def
      js_lt_def js_sub_def Let_def)

lemma market_data_empty:
  "market_data env tid empty_book
     = \<lparr>tokenId = tid, bestBid = Fin 0, bestAsk = Fin 0, spread = Fin 0, bids = [], asks = []\<rparr>"
  by (simp add: market_data_def empty_book_def js_sub_def Let_def)

text \<open>
  C1. The claim: with an empty bid side the handler neither raises nor returns
  \<^verbatim>\<open>"NaN"\<close> or \<^verbatim>\<open>"Infinity"\<close>, the division being guarded. The handler does not raise,
  but it has no guard: for the book \<^verbatim>\<open>{bids:[], asks:[{price:0.5,size:10}]}\<close> it
  answers 200 with \<^verbatim>\<open>spreadPercentage: "Infinity"\<close>, and for the empty book with
  \<^verbatim>\<open>spreadPercentage: "NaN"\<close>. By \<open>quote_empty_bids_not_a_number\<close> every book with
  no bids gives one of \<^verbatim>\<open>"NaN"\<close>, \<^verbatim>\<open>"Infinity"\<close>, \<^verbatim>\<open>"-Infinity"\<close>.
\<close>

theorem quote_empty_bids_unguarded:
  "fst (get_quote test_env (test_clob asks_only_book (Inr (Some no_order_id)) (Inr []) [])
          ''123'' ready)
     = \<lparr>status = 200,
        body = QuoteBody \<lparr>q_tokenId = ''123'', q_bestBid = Fin 0, q_bestAsk = Fin (1 / 2),
                           q_spread = Fin (1 / 2), spreadPercentage = ''Infinity''\<rparr>\<rparr>
   \<and> fst (get_quote test_env (test_clob empty_book (Inr (Some no_order_id)) (Inr []) [])
          ''123'' ready)
     = \<lparr>status = 200,
        body = QuoteBody \<lparr>q_tokenId = ''123'', q_bestBid = Fin 0, q_bestAsk = Fin 0,
                           q_spread = Fin 0, spreadPercentage = ''NaN''\<rparr>\<rparr>"
proof -
  let ?one = "test_clob asks_only_book (Inr (Some no_order_id)) (Inr []) []"
  let ?none = "test_clob empty_book (Inr (Some no_order_id)) (Inr []) []"
  have init: "fst (ensureInitialized ?one ready) = Inr ()"
    "fst (ensureInitialized ?none ready) = Inr ()"
    by (simp_all add: ensureInitialized_def ready_def)
  have fetched:
    "fst (clob_getOrderBook ?one ''123'' (remote (snd (ensureInitialized ?one ready))))
       = Inr asks_only_book"
    "fst (clob_getOrderBook ?none ''123'' (remote (snd (ensureInitialized ?none ready))))
       = Inr empty_book"
    by (simp_all add: test_clob_def)
  have one_sided: "quote_of test_env ''123'' (market_data test_env ''123'' asks_only_book)
      = \<lparr>q_tokenId = ''123'', q_bestBid = Fin 0, q_bestAsk = Fin (1 / 2),
         q_spread = Fin (1 / 2), spreadPercentage = ''Infinity''\<rparr>"
    by (simp add: market_data_asks_only quote_of_def js_div_def js_mul_def signed_inf_def
        toFixed_def)
  have no_side: "quote_of test_env ''123'' (market_data test_env ''123'' empty_book)
      = \<lparr>q_tokenId = ''123'', q_bestBid = Fin 0, q_bestAsk = Fin 0,
         q_spread = Fin 0, spreadPercentage = ''NaN''\<rparr>"
    by (simp add: market_data_empty quote_of_def js_div_def js_mul_def toFixed_def)
  show ?thesis
    using get_quote_fetched [OF init(1) fetched(1), of test_env]
      get_quote_fetched [OF init(2) fetched(2), of test_env]
    by (simp add: one_sided no_side)
qed

text \<open>
  The scenario of the specification: the numbers \<^verbatim>\<open>0.97\<close>, \<^verbatim>\<open>0.975\<close> and \<^verbatim>\<open>0.005\<close>
  are the binary64 values nearest to the decimals; the difference of the first two
  is exact in binary64 and is not the third.
\<close>

lemma scenario_numbers:
  "fl (97 / 100) = Fin (4368491638549381 / 4503599627370496)"
  "fl (975 / 1000) = Fin (8782019273372467 / 9007199254740992)"
  "fl (5 / 1000) = Fin (5764607523034235 / 1152921504606846976)"
  by code_simp+

lemma market_data_scenario:
  "market_data env tid scenario_book
     = \<lparr>tokenId = tid,
        bestBid = Fin (4368491638549381 / 4503599627370496),
        bestAsk = Fin (8782019273372467 / 9007199254740992),
        spread = Fin (45035996273705 / 9007199254740992),
        bids = [\<lparr>price = Fin (4368491638549381 / 4503599627370496), level_size = Fin 10\<rparr>],
        asks = [\<lparr>price = Fin (8782019273372467 / 9007199254740992), level_size = Fin 5\<rparr>]\<rparr>"
  by code_simp

lemma scenario_percentage:
  "toFixed env 3
     (js_mul (js_div (Fin (45035996273705 / 9007199254740992))
                     (Fin (4368491638549381 / 4503599627370496))) (Fin 100)) = ''0.515''"
  by code_simp

lemma quote_of_scenario:
  "quote_of env tid (market_data env tid scenario_book)
     = \<lparr>q_tokenId = tid,
        q_bestBid = Fin (4368491638549381 / 4503599627370496),
        q_bestAsk = Fin (8782019273372467 / 9007199254740992),
        q_spread = Fin (45035996273705 / 9007199254740992),
        spreadPercentage = ''0.515''\<rparr>"
  unfolding market_data_scenario
  using scenario_percentage [of env]
  by (simp add: quote_of_def)

text \<open>
  C7, as amended. For the order book
  \<^verbatim>\<open>{bids:[{price:0.97,size:10}], asks:[{price:0.975,size:5}]}\<close> the quote of token
  \<^verbatim>\<open>123\<close> is \<^verbatim>\<open>bestBid: 0.97\<close>, \<^verbatim>\<open>bestAsk: 0.975\<close>, \<^verbatim>\<open>spreadPercentage: "0.515"\<close>,
  and \<^verbatim>\<open>spread\<close> the binary64 difference \<^verbatim>\<open>0.975 - 0.97\<close>, which is
  \<open>45035996273705 / 2 ^ 53\<close> and prints as \<^verbatim>\<open>0.0050000000000000044\<close>.
\<close>

theorem quote_scenario:
  assumes init: "fst (ensureInitialized cl s) = Inr ()"
    and fetched: "fst (clob_getOrderBook cl ''123'' (remote (snd (ensureInitialized cl s))))
                    = Inr scenario_book"
  shows "fst (get_quote env cl ''123'' s)
           = \<lparr>status = 200,
              body = QuoteBody
                \<lparr>q_tokenId = ''123'', q_bestBid = fl (97 / 100), q_bestAsk = fl (975 / 1000),
                 q_spread = Fin (45035996273705 / 9007199254740992),
                 spreadPercentage = ''0.515''\<rparr>\<rparr>"
  using get_quote_fetched [OF init fetched, of env]
  by (simp only: quote_of_scenario scenario_numbers) simp

theorem quote_scenario_witness:
  "fst (ensureInitialized
          (test_clob scenario_book (Inr (Some no_order_id)) (Inr []) []) fresh) = Inr ()
   \<and> fst (clob_getOrderBook (test_clob scenario_book (Inr (Some no_order_id)) (Inr []) [])
        ''123'' (remote (snd (ensureInitialized
           (test_clob scenario_book (Inr (Some no_order_id)) (Inr []) []) fresh))))
      = Inr scenario_book
   \<and> fst (get_quote test_env
        (test_clob scenario_book (Inr (Some no_order_id)) (Inr []) []) ''123'' fresh)
      = \<lparr>status = 200,
         body = QuoteBody
           \<lparr>q_tokenId = ''123'', q_bestBid = fl (97 / 100), q_bestAsk = fl (975 / 1000),
            q_spread = Fin (45035996273705 / 9007199254740992),
            spreadPercentage = ''0.515''\<rparr>\<rparr>"
proof -
  let ?cl = "test_clob scenario_book (Inr (Some no_order_id)) (Inr []) []"
  have init: "fst (ensureInitialized ?cl fresh) = Inr ()"
    by (simp add: ensureInitialized_def initialize_def remote_call_def test_clob_def fresh_def)
  have fetched: "fst (clob_getOrderBook ?cl ''123'' (remote (snd (ensureInitialized ?cl fresh))))
                   = Inr scenario_book"
    by (simp add: test_clob_def)
  show ?thesis
    using quote_scenario [OF init fetched, of test_env] init fetched
    by simp
qed

text \<open>
  C7, as claimed, fails: the quote returned for the scenario is not the one with
  \<^verbatim>\<open>spread: 0.005\<close>.
\<close>

theorem quote_scenario_spread_counterexample:
  "fst (get_quote test_env
        (test_clob scenario_book (Inr (Some no_order_id)) (Inr []) []) ''123'' ready)
     \<noteq> \<lparr>status = 200,
         body = QuoteBody
           \<lparr>q_tokenId = ''123'', q_bestBid = fl (97 / 100), q_bestAsk = fl (975 / 1000),
            q_spread = fl (5 / 1000), spreadPercentage = ''0.515''\<rparr>\<rparr>"
proof -
  let ?cl = "test_clob scenario_book (Inr (Some no_order_id)) (Inr []) []"
  have init: "fst (ensureInitialized ?cl ready) = Inr ()"
    by (simp add: ensureInitialized_def ready_def)
  have fetched: "fst (clob_getOrderBook ?cl ''123'' (remote (snd (ensureInitialized ?cl ready))))
                   = Inr scenario_book"
    by (simp add: test_clob_def)
  have "fst (get_quote test_env ?cl ''123'' ready)
          = \<lparr>status = 200,
             body = QuoteBody (quote_of test_env ''123''
                      (market_data test_env ''123'' scenario_book))\<rparr>"
    using get_quote_fetched [OF init fetched, of test_env] by simp
  then show ?thesis
    by (simp only: quote_of_scenario scenario_numbers) simp
qed

subsection \<open>\<^verbatim>\<open>cancelAllOrders\<close>: which orders are cancelled, and the count\<close>









subsection \<open>Concurrent first use\<close>

lemma calls_while_uninitialized:
  "\<not> conc_initialized c \<Longrightarrow>
   derive_calls (run (replicate n Call) c) = derive_calls c + n
   \<and> \<not> conc_initialized (run (replicate n Call) c)
   \<and> callers (run (replicate n Call) c) = callers c @ replicate n Awaiting"
proof (induction n arbitrary: c)
  case 0
  then show ?case by simp
next
  case (Suc n)
  have "\<not> conc_initialized (call_method c)"
    using Suc.prems by (simp add: call_method_def)
  from Suc.IH [OF this] show ?case
    using Suc.prems by (simp add: call_method_def replicate_append_same)
qed

lemma calls_once_initialized:
  "conc_initialized c \<Longrightarrow>
   derive_calls (run (replicate n Call) c) = derive_calls c
   \<and> callers (run (replicate n Call) c) = callers c @ replicate n Proceeds"
proof (induction n arbitrary: c)
  case 0
  then show ?case by simp
next
  case (Suc n)
  have "conc_initialized (call_method c)"
    using Suc.prems by (simp add: call_method_def)
  from Suc.IH [OF this] show ?case
    using Suc.prems by (simp add: call_method_def replicate_append_same)
qed

text \<open>
  C8, as amended. The facade has a flag and no single-flight guard: \<open>N\<close> calls of a
  credentialed method that start while it is uninitialized and before any derivation
  has settled make \<open>N\<close> credential derivations, each caller waiting for its own. Once
  one initialization has completed, as at startup, where \<^verbatim>\<open>initialize()\<close> is awaited
  before any route is registered, any number of further calls make no derivation and
  proceed at once: the gateway as started derives exactly once.
\<close>

theorem first_use_derivations:
  "derive_calls (run (replicate n Call) uninitialized) = n
   \<and> callers (run (replicate n Call) uninitialized) = replicate n Awaiting
   \<and> derive_calls (run (Call # Settle 0 True # replicate n Call) uninitialized) = 1
   \<and> callers (run (Call # Settle 0 True # replicate n Call) uninitialized)
       = replicate (Suc n) Proceeds"
proof -
  have together: "derive_calls (run (replicate n Call) uninitialized) = n
      \<and> callers (run (replicate n Call) uninitialized) = replicate n Awaiting"
    using calls_while_uninitialized [of uninitialized n] by (simp add: uninitialized_def)
  let ?started = "settle 0 True (call_method uninitialized)"
  have started: "conc_initialized ?started" "derive_calls ?started = 1"
    "callers ?started = [Proceeds]"
    by (simp_all add: uninitialized_def call_method_def settle_def)
  have after: "derive_calls (run (Call # Settle 0 True # replicate n Call) uninitialized) = 1
      \<and> callers (run (Call # Settle 0 True # replicate n Call) uninitialized)
          = replicate (Suc n) Proceeds"
    using calls_once_initialized [OF started(1), of n] started(2,3) by simp
  show ?thesis
    using together after by simp
qed

text \<open>
  C8, as claimed, fails for two calls started together on an uninitialized facade: the
  second finds the flag still unset, and the remote service is asked to derive twice.
\<close>

theorem concurrent_first_use_counterexample:
  "derive_calls (run [Call, Call] uninitialized) = 2
   \<and> callers (run [Call, Call] uninitialized) = [Awaiting, Awaiting]
   \<and> derive_calls (run [Call, Call, Settle 0 True, Settle 1 True] uninitialized) = 2
   \<and> callers (run [Call, Call, Settle 0 True, Settle 1 True] uninitialized)
       = [Proceeds, Proceeds]"
  by (simp add: uninitialized_def call_method_def settle_def)

end
